theory Spec2Isabelle
  imports Main "HOL-Library.AList"
begin

section \<open>Device port configuration reconciliation (devicenetwork/dnc.go)\<close>

text \<open>
  The handlers of \<^verbatim>\<open>src/devicenetwork/dnc.go\<close> mutate one
  \<^verbatim>\<open>DeviceNetworkContext\<close> and call collaborators that live in other
  packages. The embedding passes the context explicitly, returns it updated, and returns
  next to it the list of collaborator calls the handler made, in program order.

  The payload types \<^verbatim>\<open>types.DeviceNetworkConfig\<close>,
  \<^verbatim>\<open>types.DevicePortConfig\<close> and \<^verbatim>\<open>types.DeviceNetworkStatus\<close>
  are declared outside the source at hand; they are the type parameters \<open>'r\<close>, \<open>'c\<close>
  and \<open>'s\<close>. \<^verbatim>\<open>reflect.DeepEqual\<close> on them is HOL equality.

  The handlers take their context and payload as \<^verbatim>\<open>interface{}\<close> and cast
  them first; the embedding is typed, so the arguments are already of the type the cast
  expects. The calls of the logger change nothing the handlers read and are left out.
  Go's \<^verbatim>\<open>int\<close> is \<open>int\<close>: the handlers compare and assign integers and do
  no arithmetic on them.
\<close>

subsection \<open>Data model\<close>

text \<open>
  Modelled from the spec: \<^verbatim>\<open>pubsub.Publication\<close>, which the source at hand
  uses and does not define; the spec gives it as \<^verbatim>\<open>Publisher.Publish(topic, value)\<close>,
  publishing a value under a fixed topic. A publication holds the items published, by
  key: \<^verbatim>\<open>Publish(key, item)\<close> stores the item under the key, and
  \<^verbatim>\<open>Get(key)\<close>, which lines 43 and 69 test against \<^verbatim>\<open>nil\<close>, returns
  the item stored under it, \<^verbatim>\<open>nil\<close> when there is none. A Go pointer field is an \<open>option\<close>, with \<open>None\<close> for
  \<^verbatim>\<open>nil\<close>.
\<close>

type_synonym 'a Publication = "(string \<times> 'a) list"

text \<open>
  The struct of lines 14 to 29. The four subscription handles are never read or written
  by the handlers of this file and are left out.
\<close>

record ('r, 'c, 's) DeviceNetworkContext =
  UsableAddressCount :: int
  ManufacturerModel :: string
  DeviceNetworkConfig :: "'r option"
  DevicePortConfig :: "'c option"
  DevicePortConfigPrio :: int
  DeviceNetworkStatus :: "'s option"
  PubDevicePortConfig :: "'c Publication option"
  PubDeviceNetworkStatus :: "'s Publication option"
  Changed :: bool

text \<open>
  The functions and zero values the handlers use and the source at hand does not define.
  \<open>MakeDeviceNetworkStatus\<close> returns the pair of Go results: the status and the error
  (\<open>None\<close> for \<^verbatim>\<open>nil\<close>).
\<close>

record ('r, 'c, 's) collaborators =
  zeroDeviceNetworkConfig :: 'r
  zeroDevicePortConfig :: 'c
  zeroDeviceNetworkStatus :: 's
  MakeDevicePortConfig :: "'r \<Rightarrow> 'c"
  MakeDeviceNetworkStatus :: "'c \<Rightarrow> 's \<Rightarrow> 's \<times> string option"
  CountLocalAddrAnyNoLinkLocal :: "'s \<Rightarrow> int"

text \<open>
  The calls a handler makes that leave the context: \<^verbatim>\<open>UpdateDhcpClient(new, old)\<close>,
  \<^verbatim>\<open>MakeDeviceNetworkStatus(config, oldStatus)\<close>,
  \<^verbatim>\<open>types.UpdateLedManagerConfig(n)\<close>, and \<^verbatim>\<open>Publish(key, item)\<close> on
  each of the two publications.
\<close>

datatype ('c, 's) call =
    CallUpdateDhcpClient 'c 'c
  | CallMakeDeviceNetworkStatus 'c 's
  | CallUpdateLedManagerConfig int
  | PublishDevicePortConfig string 'c
  | PublishDeviceNetworkStatus string 's

datatype panic = NilPointerDereference

type_synonym ('r, 'c, 's) outcome =
  "panic + (('r, 'c, 's) DeviceNetworkContext \<times> ('c, 's) call list)"

subsection \<open>Precedence of a source key\<close>

text \<open>The \<^verbatim>\<open>switch key\<close> of lines 101 to 109, repeated at lines 143 to 151.\<close>

definition priority :: "string \<Rightarrow> int" where
  "priority key =
     (if key = ''global'' then 3
      else if key = ''override'' then 2
      else 1)"

subsection \<open>Availability notification\<close>

text \<open>Lines 178 to 198.\<close>

definition DoDNSUpdate ::
  "('r, 'c, 's) collaborators \<Rightarrow> ('r, 'c, 's) DeviceNetworkContext \<Rightarrow> ('r, 'c, 's) outcome"
where
  "DoDNSUpdate env ctx =
     (case DeviceNetworkStatus ctx of
        None \<Rightarrow> Inl NilPointerDereference
      | Some status \<Rightarrow>
          let newAddrCount = CountLocalAddrAnyNoLinkLocal env status;
              led =
                (if newAddrCount = 0 \<and> UsableAddressCount ctx \<noteq> 0
                 then [CallUpdateLedManagerConfig 1]
                 else if newAddrCount \<noteq> 0 \<and> UsableAddressCount ctx = 0
                 then [CallUpdateLedManagerConfig 2]
                 else []);
              ctx1 = ctx\<lparr>UsableAddressCount := newAddrCount\<rparr>
          in (case PubDeviceNetworkStatus ctx1 of
                None \<Rightarrow> Inr (ctx1\<lparr>Changed := True\<rparr>, led)
              | Some items \<Rightarrow>
                  Inr (ctx1\<lparr>PubDeviceNetworkStatus :=
                               Some (AList.update ''global'' status items),
                            Changed := True\<rparr>,
                       led @ [PublishDeviceNetworkStatus ''global'' status])))"

subsection \<open>Port configuration handlers\<close>

text \<open>
  Lines 92 to 132. The status computed at line 123 is used whatever the error returned
  with it: the second result is bound to \<^verbatim>\<open>_\<close>.
\<close>

definition HandleDPCModify ::
  "('r, 'c, 's) collaborators \<Rightarrow> ('r, 'c, 's) DeviceNetworkContext \<Rightarrow> string \<Rightarrow> 'c
     \<Rightarrow> ('r, 'c, 's) outcome"
where
  "HandleDPCModify env ctx key portConfig =
     (let curPriority = DevicePortConfigPrio ctx;
          prio = priority key
      in if curPriority \<noteq> 0 \<and> prio > curPriority then Inr (ctx, [])
         else
           let ctx1 = ctx\<lparr>DevicePortConfigPrio := prio\<rparr>
           in (case DevicePortConfig ctx1 of
                 None \<Rightarrow> Inl NilPointerDereference
               | Some oldConfig \<Rightarrow>
                   let dhcp = (if oldConfig \<noteq> portConfig
                               then [CallUpdateDhcpClient portConfig oldConfig] else []);
                       ctx2 = (if oldConfig \<noteq> portConfig
                               then ctx1\<lparr>DevicePortConfig := Some portConfig\<rparr> else ctx1)
                   in (case DeviceNetworkStatus ctx2 of
                         None \<Rightarrow> Inl NilPointerDereference
                       | Some oldStatus \<Rightarrow>
                           let dnStatus = fst (MakeDeviceNetworkStatus env portConfig oldStatus);
                               calls = dhcp @ [CallMakeDeviceNetworkStatus portConfig oldStatus]
                           in if oldStatus \<noteq> dnStatus
                              then (case DoDNSUpdate env
                                           (ctx2\<lparr>DeviceNetworkStatus := Some dnStatus\<rparr>) of
                                      Inl p \<Rightarrow> Inl p
                                    | Inr (ctx3, notified) \<Rightarrow> Inr (ctx3, calls @ notified))
                              else Inr (ctx2, calls))))"

text \<open>
  Lines 134 to 176. The third argument of the Go function is never used and is left out.
\<close>

definition HandleDPCDelete ::
  "('r, 'c, 's) collaborators \<Rightarrow> ('r, 'c, 's) DeviceNetworkContext \<Rightarrow> string
     \<Rightarrow> ('r, 'c, 's) outcome"
where
  "HandleDPCDelete env ctx key =
     (let curPriority = DevicePortConfigPrio ctx;
          prio = priority key
      in if curPriority \<noteq> prio then Inr (ctx, [])
         else
           let ctx1 = ctx\<lparr>DevicePortConfigPrio := 0\<rparr>;
               portConfig = zeroDevicePortConfig env
           in (case DevicePortConfig ctx1 of
                 None \<Rightarrow> Inl NilPointerDereference
               | Some oldConfig \<Rightarrow>
                   let dhcp = (if oldConfig \<noteq> portConfig
                               then [CallUpdateDhcpClient portConfig oldConfig] else []);
                       ctx2 = (if oldConfig \<noteq> portConfig
                               then ctx1\<lparr>DevicePortConfig := Some portConfig\<rparr> else ctx1);
                       dnStatus = zeroDeviceNetworkStatus env
                   in (case DeviceNetworkStatus ctx2 of
                         None \<Rightarrow> Inl NilPointerDereference
                       | Some oldStatus \<Rightarrow>
                           if oldStatus \<noteq> dnStatus
                           then (case DoDNSUpdate env
                                        (ctx2\<lparr>DeviceNetworkStatus := Some dnStatus\<rparr>) of
                                   Inl p \<Rightarrow> Inl p
                                 | Inr (ctx3, notified) \<Rightarrow> Inr (ctx3, dhcp @ notified))
                           else Inr (ctx2, dhcp))))"

subsection \<open>Legacy single-source handlers\<close>

text \<open>
  The value read at lines 43 to 48 and 69 to 74: the item published under
  \<^verbatim>\<open>"global"\<close>, or the zero configuration when there is none.
\<close>

definition publishedPortConfig ::
  "('r, 'c, 's) collaborators \<Rightarrow> 'c Publication \<Rightarrow> 'c"
where
  "publishedPortConfig env items =
     (case map_of items ''global'' of
        None \<Rightarrow> zeroDevicePortConfig env
      | Some c \<Rightarrow> c)"

text \<open>Lines 31 to 57.\<close>

definition HandleDNCModify ::
  "('r, 'c, 's) collaborators \<Rightarrow> ('r, 'c, 's) DeviceNetworkContext \<Rightarrow> string \<Rightarrow> 'r
     \<Rightarrow> ('r, 'c, 's) outcome"
where
  "HandleDNCModify env ctx key config =
     (if key \<noteq> ManufacturerModel ctx then Inr (ctx, [])
      else
        (case PubDevicePortConfig ctx of
           None \<Rightarrow> Inl NilPointerDereference
         | Some items \<Rightarrow>
             let oldConfig = publishedPortConfig env items
             in (case DeviceNetworkConfig ctx of
                   None \<Rightarrow> Inl NilPointerDereference
                 | Some _ \<Rightarrow>
                     let ctx1 = ctx\<lparr>DeviceNetworkConfig := Some config\<rparr>;
                         portConfig = MakeDevicePortConfig env config
                     in if oldConfig \<noteq> portConfig
                        then Inr (ctx1\<lparr>PubDevicePortConfig :=
                                         Some (AList.update ''global'' portConfig items)\<rparr>,
                                  [PublishDevicePortConfig ''global'' portConfig])
                        else Inr (ctx1, []))))"

text \<open>Lines 59 to 84.\<close>

definition HandleDNCDelete ::
  "('r, 'c, 's) collaborators \<Rightarrow> ('r, 'c, 's) DeviceNetworkContext \<Rightarrow> string
     \<Rightarrow> ('r, 'c, 's) outcome"
where
  "HandleDNCDelete env ctx key =
     (if key \<noteq> ManufacturerModel ctx then Inr (ctx, [])
      else
        (case PubDevicePortConfig ctx of
           None \<Rightarrow> Inl NilPointerDereference
         | Some items \<Rightarrow>
             let oldConfig = publishedPortConfig env items
             in (case DeviceNetworkConfig ctx of
                   None \<Rightarrow> Inl NilPointerDereference
                 | Some _ \<Rightarrow>
                     let ctx1 = ctx\<lparr>DeviceNetworkConfig := Some (zeroDeviceNetworkConfig env)\<rparr>;
                         portConfig = MakeDevicePortConfig env (zeroDeviceNetworkConfig env)
                     in if oldConfig \<noteq> portConfig
                        then Inr (ctx1\<lparr>PubDevicePortConfig :=
                                         Some (AList.update ''global'' portConfig items)\<rparr>,
                                  [PublishDevicePortConfig ''global'' portConfig])
                        else Inr (ctx1, []))))"

subsection \<open>Event sequences\<close>

text \<open>
  The events the transport delivers to the two port configuration handlers, one at a
  time. The collaborators read the state of the machine, so that the same call may
  return another value later: every event of a run comes with the collaborators as they
  behave during its delivery. A panic ends the run.
\<close>

datatype 'c event = Modify string 'c | Delete string

fun step ::
  "('r, 'c, 's) collaborators \<Rightarrow> ('r, 'c, 's) DeviceNetworkContext \<Rightarrow> 'c event
     \<Rightarrow> ('r, 'c, 's) outcome"
where
  "step env ctx (Modify key portConfig) = HandleDPCModify env ctx key portConfig"
| "step env ctx (Delete key) = HandleDPCDelete env ctx key"

fun run ::
  "('r, 'c, 's) DeviceNetworkContext \<Rightarrow> (('r, 'c, 's) collaborators \<times> 'c event) list
     \<Rightarrow> ('r, 'c, 's) outcome"
where
  "run ctx [] = Inr (ctx, [])"
| "run ctx ((env, e) # es) =
     (case step env ctx e of
        Inl p \<Rightarrow> Inl p
      | Inr (ctx1, calls) \<Rightarrow>
          (case run ctx1 es of
             Inl p \<Rightarrow> Inl p
           | Inr (ctx2, calls') \<Rightarrow> Inr (ctx2, calls @ calls')))"

text \<open>
  Whether the handler goes past its precedence check: the negation of the conditions of
  lines 110 and 152.
\<close>

fun accepted :: "('r, 'c, 's) DeviceNetworkContext \<Rightarrow> 'c event \<Rightarrow> bool" where
  "accepted ctx (Modify key portConfig) =
     (\<not> (DevicePortConfigPrio ctx \<noteq> 0 \<and> priority key > DevicePortConfigPrio ctx))"
| "accepted ctx (Delete key) = (\<not> (DevicePortConfigPrio ctx \<noteq> priority key))"

text \<open>The events of a run that were accepted, in the order of their delivery.\<close>

fun acceptedEvents ::
  "('r, 'c, 's) DeviceNetworkContext \<Rightarrow> (('r, 'c, 's) collaborators \<times> 'c event) list
     \<Rightarrow> 'c event list"
where
  "acceptedEvents ctx [] = []"
| "acceptedEvents ctx ((env, e) # es) =
     (case step env ctx e of
        Inl p \<Rightarrow> []
      | Inr (ctx1, calls) \<Rightarrow>
          (if accepted ctx e then [e] else []) @ acceptedEvents ctx1 es)"

fun isModify :: "'c event \<Rightarrow> bool" where
  "isModify (Modify key portConfig) = True"
| "isModify (Delete key) = False"

text \<open>The two pointers the port configuration handlers dereference are not nil.\<close>

definition allocated :: "('r, 'c, 's) DeviceNetworkContext \<Rightarrow> bool" where
  "allocated ctx = (DevicePortConfig ctx \<noteq> None \<and> DeviceNetworkStatus ctx \<noteq> None)"

subsection \<open>Reading the list of calls\<close>

fun ledSignals :: "('c, 's) call list \<Rightarrow> int list" where
  "ledSignals [] = []"
| "ledSignals (CallUpdateLedManagerConfig n # cs) = n # ledSignals cs"
| "ledSignals (c # cs) = ledSignals cs"

fun dhcpCalls :: "('c, 's) call list \<Rightarrow> ('c \<times> 'c) list" where
  "dhcpCalls [] = []"
| "dhcpCalls (CallUpdateDhcpClient new old # cs) = (new, old) # dhcpCalls cs"
| "dhcpCalls (c # cs) = dhcpCalls cs"

fun projectorCalls :: "('c, 's) call list \<Rightarrow> ('c \<times> 's) list" where
  "projectorCalls [] = []"
| "projectorCalls (CallMakeDeviceNetworkStatus config old # cs) =
     (config, old) # projectorCalls cs"
| "projectorCalls (c # cs) = projectorCalls cs"

fun statusPublications :: "('c, 's) call list \<Rightarrow> (string \<times> 's) list" where
  "statusPublications [] = []"
| "statusPublications (PublishDeviceNetworkStatus key status # cs) =
     (key, status) # statusPublications cs"
| "statusPublications (c # cs) = statusPublications cs"

text \<open>
  The calls of \<open>DoDNSUpdate\<close> on a context with cached count \<open>cached\<close>, status
  publication \<open>pub\<close> and status \<open>status\<close>: the signal of lines 182 to 192, then
  the publication of lines 194 to 196.
\<close>

definition notify ::
  "('r, 'c, 's) collaborators \<Rightarrow> int \<Rightarrow> 's Publication option \<Rightarrow> 's \<Rightarrow> ('c, 's) call list"
where
  "notify env cached pub status =
     (if CountLocalAddrAnyNoLinkLocal env status = 0 \<and> cached \<noteq> 0
      then [CallUpdateLedManagerConfig 1]
      else if CountLocalAddrAnyNoLinkLocal env status \<noteq> 0 \<and> cached = 0
      then [CallUpdateLedManagerConfig 2]
      else []) @
     (case pub of None \<Rightarrow> [] | Some items \<Rightarrow> [PublishDeviceNetworkStatus ''global'' status])"

text \<open>
  The precedence left by a list of accepted events, from precedence \<open>p\<close>: line 115
  for a Modify, line 159 for a Delete.
\<close>

fun lastPriority :: "int \<Rightarrow> 'c event list \<Rightarrow> int" where
  "lastPriority p [] = p"
| "lastPriority p (Modify key portConfig # es) = lastPriority (priority key) es"
| "lastPriority p (Delete key # es) = lastPriority 0 es"

subsection \<open>A concrete instance\<close>

text \<open>
  Collaborators over lists of names: a port configuration is its list of port names and a
  status is the list of ports that have an address. The projector fails on a
  configuration without ports, returning the old status, and fails on a port named
  \<open>down\<close>, returning the status of the other ports.
\<close>

definition demoEnv :: "(string list, string list, string list) collaborators" where
  "demoEnv =
     \<lparr>zeroDeviceNetworkConfig = [],
      zeroDevicePortConfig = [],
      zeroDeviceNetworkStatus = [],
      MakeDevicePortConfig = (\<lambda>raw. raw),
      MakeDeviceNetworkStatus =
        (\<lambda>config old.
           if config = [] then (old, Some ''no ports'')
           else if ''down'' \<in> set config
           then (filter (\<lambda>p. p \<noteq> ''down'') config, Some ''probe failed'')
           else (config, None)),
      CountLocalAddrAnyNoLinkLocal = (\<lambda>status. int (length status))\<rparr>"

text \<open>The context before any event: nothing configured, precedence unset.\<close>

definition demoCtx :: "(string list, string list, string list) DeviceNetworkContext" where
  "demoCtx =
     \<lparr>UsableAddressCount = 0,
      ManufacturerModel = ''acme.box'',
      DeviceNetworkConfig = Some [],
      DevicePortConfig = Some [],
      DevicePortConfigPrio = 0,
      DeviceNetworkStatus = Some [],
      PubDevicePortConfig = Some [],
      PubDeviceNetworkStatus = Some [],
      Changed = False\<rparr>"

text \<open>
  A context in which a source of precedence \<open>prio\<close> is active with one port that has
  an address.
\<close>

definition activeCtx ::
  "int \<Rightarrow> (string list, string list, string list) DeviceNetworkContext"
where
  "activeCtx prio =
     \<lparr>UsableAddressCount = 1,
      ManufacturerModel = ''acme.box'',
      DeviceNetworkConfig = Some [],
      DevicePortConfig = Some [''eth0''],
      DevicePortConfigPrio = prio,
      DeviceNetworkStatus = Some [''eth0''],
      PubDevicePortConfig = Some [],
      PubDeviceNetworkStatus = Some [(''global'', [''eth0''])],
      Changed = True\<rparr>"

section \<open>Properties\<close>

lemma priority_range: "priority key \<in> {1, 2, 3}"
  by (simp add: priority_def)

lemma ledSignals_append: "ledSignals (xs @ ys) = ledSignals xs @ ledSignals ys"
  by (induction xs rule: ledSignals.induct) simp_all

lemma dhcpCalls_append: "dhcpCalls (xs @ ys) = dhcpCalls xs @ dhcpCalls ys"
  by (induction xs rule: dhcpCalls.induct) simp_all

lemma projectorCalls_append:
  "projectorCalls (xs @ ys) = projectorCalls xs @ projectorCalls ys"
  by (induction xs rule: projectorCalls.induct) simp_all

lemma statusPublications_append:
  "statusPublications (xs @ ys) = statusPublications xs @ statusPublications ys"
  by (induction xs rule: statusPublications.induct) simp_all

subsection \<open>What the handlers return\<close>

lemma notify_projections [simp]:
  "dhcpCalls (notify env cached pub status) = []"
  "projectorCalls (notify env cached pub status) = []"
  "statusPublications (notify env cached pub status) =
     (case pub of None \<Rightarrow> [] | Some items \<Rightarrow> [(''global'', status)])"
  "ledSignals (notify env cached pub status) =
     (if CountLocalAddrAnyNoLinkLocal env status = 0 \<and> cached \<noteq> 0 then [1]
      else if CountLocalAddrAnyNoLinkLocal env status \<noteq> 0 \<and> cached = 0 then [2]
      else [])"
  by (simp_all add: notify_def dhcpCalls_append projectorCalls_append
        statusPublications_append ledSignals_append split: option.split)

lemma DoDNSUpdate_returns:
  assumes "DeviceNetworkStatus ctx = Some status"
  shows "DoDNSUpdate env ctx =
           Inr (ctx\<lparr>UsableAddressCount := CountLocalAddrAnyNoLinkLocal env status,
                    PubDeviceNetworkStatus :=
                      map_option (AList.update ''global'' status) (PubDeviceNetworkStatus ctx),
                    Changed := True\<rparr>,
                notify env (UsableAddressCount ctx) (PubDeviceNetworkStatus ctx) status)"
  using assms
  by (cases "PubDeviceNetworkStatus ctx") (simp_all add: DoDNSUpdate_def Let_def notify_def)

lemma HandleDPCModify_rejected:
  assumes "\<not> (DevicePortConfigPrio ctx = 0 \<or> priority key \<le> DevicePortConfigPrio ctx)"
  shows "HandleDPCModify env ctx key portConfig = Inr (ctx, [])"
  using assms by (simp add: HandleDPCModify_def Let_def)

lemma HandleDPCModify_accepted:
  assumes "DevicePortConfigPrio ctx = 0 \<or> priority key \<le> DevicePortConfigPrio ctx"
    and "DevicePortConfig ctx = Some oldConfig"
    and "DeviceNetworkStatus ctx = Some oldStatus"
  shows "HandleDPCModify env ctx key portConfig =
           (let dnStatus = fst (MakeDeviceNetworkStatus env portConfig oldStatus)
            in if oldStatus \<noteq> dnStatus
            then Inr (ctx\<lparr>DevicePortConfigPrio := priority key,
                          DevicePortConfig := Some portConfig,
                          DeviceNetworkStatus := Some dnStatus,
                          UsableAddressCount := CountLocalAddrAnyNoLinkLocal env dnStatus,
                          PubDeviceNetworkStatus :=
                            map_option (AList.update ''global'' dnStatus)
                              (PubDeviceNetworkStatus ctx),
                          Changed := True\<rparr>,
                      (if oldConfig \<noteq> portConfig
                       then [CallUpdateDhcpClient portConfig oldConfig] else []) @
                      [CallMakeDeviceNetworkStatus portConfig oldStatus] @
                      notify env (UsableAddressCount ctx) (PubDeviceNetworkStatus ctx) dnStatus)
            else Inr (ctx\<lparr>DevicePortConfigPrio := priority key,
                          DevicePortConfig := Some portConfig\<rparr>,
                      (if oldConfig \<noteq> portConfig
                       then [CallUpdateDhcpClient portConfig oldConfig] else []) @
                      [CallMakeDeviceNetworkStatus portConfig oldStatus]))"
proof -
  have guard: "\<not> (DevicePortConfigPrio ctx \<noteq> 0 \<and> priority key > DevicePortConfigPrio ctx)"
    using assms(1) by auto
  have same: "ctx\<lparr>DevicePortConfigPrio := p, DevicePortConfig := Some oldConfig\<rparr> =
              ctx\<lparr>DevicePortConfigPrio := p\<rparr>" for p
    using assms(2) by (cases ctx) simp
  show ?thesis
  proof (cases "oldConfig = portConfig")
    case True
    show ?thesis
      using guard assms(2,3) True same
      by (simp add: HandleDPCModify_def Let_def DoDNSUpdate_returns)
  next
    case False
    show ?thesis
      using guard assms(2,3) False
      by (simp add: HandleDPCModify_def Let_def DoDNSUpdate_returns)
  qed
qed


lemma HandleDPCDelete_rejected:
  assumes "priority key \<noteq> DevicePortConfigPrio ctx"
  shows "HandleDPCDelete env ctx key = Inr (ctx, [])"
  using assms by (simp add: HandleDPCDelete_def Let_def)

lemma HandleDPCDelete_accepted:
  assumes "priority key = DevicePortConfigPrio ctx"
    and "DevicePortConfig ctx = Some oldConfig"
    and "DeviceNetworkStatus ctx = Some oldStatus"
  shows "HandleDPCDelete env ctx key =
           (if oldStatus \<noteq> zeroDeviceNetworkStatus env
            then Inr (ctx\<lparr>DevicePortConfigPrio := 0,
                          DevicePortConfig := Some (zeroDevicePortConfig env),
                          DeviceNetworkStatus := Some (zeroDeviceNetworkStatus env),
                          UsableAddressCount :=
                            CountLocalAddrAnyNoLinkLocal env (zeroDeviceNetworkStatus env),
                          PubDeviceNetworkStatus :=
                            map_option (AList.update ''global'' (zeroDeviceNetworkStatus env))
                              (PubDeviceNetworkStatus ctx),
                          Changed := True\<rparr>,
                      (if oldConfig \<noteq> zeroDevicePortConfig env
                       then [CallUpdateDhcpClient (zeroDevicePortConfig env) oldConfig] else []) @
                      notify env (UsableAddressCount ctx) (PubDeviceNetworkStatus ctx)
                        (zeroDeviceNetworkStatus env))
            else Inr (ctx\<lparr>DevicePortConfigPrio := 0,
                          DevicePortConfig := Some (zeroDevicePortConfig env)\<rparr>,
                      (if oldConfig \<noteq> zeroDevicePortConfig env
                       then [CallUpdateDhcpClient (zeroDevicePortConfig env) oldConfig] else [])))"
proof -
  have same: "ctx\<lparr>DevicePortConfigPrio := p, DevicePortConfig := Some oldConfig\<rparr> =
              ctx\<lparr>DevicePortConfigPrio := p\<rparr>" for p
    using assms(2) by (cases ctx) simp
  show ?thesis
  proof (cases "oldConfig = zeroDevicePortConfig env")
    case True
    show ?thesis
      using assms True same
      by (simp add: HandleDPCDelete_def Let_def DoDNSUpdate_returns)
  next
    case False
    show ?thesis
      using assms False
      by (simp add: HandleDPCDelete_def Let_def DoDNSUpdate_returns)
  qed
qed

lemma step_allocated:
  assumes "allocated ctx"
  shows "\<exists>ctx' calls. step env ctx e = Inr (ctx', calls) \<and> allocated ctx' \<and>
           DevicePortConfigPrio ctx' =
             (if accepted ctx e
              then (case e of Modify key portConfig \<Rightarrow> priority key | Delete key \<Rightarrow> 0)
              else DevicePortConfigPrio ctx)"
proof -
  obtain oldConfig oldStatus where
    old: "DevicePortConfig ctx = Some oldConfig" "DeviceNetworkStatus ctx = Some oldStatus"
    using assms by (auto simp add: allocated_def)
  show ?thesis
  proof (cases e)
    case (Modify key portConfig)
    show ?thesis
    proof (cases "DevicePortConfigPrio ctx = 0 \<or> priority key \<le> DevicePortConfigPrio ctx")
      case True
      then show ?thesis
        using Modify old HandleDPCModify_accepted [OF True old, of env portConfig]
        by (auto simp add: Let_def allocated_def)
    next
      case False
      then show ?thesis
        using Modify assms HandleDPCModify_rejected [OF False, of env portConfig]
        by auto
    qed
  next
    case (Delete key)
    show ?thesis
    proof (cases "priority key = DevicePortConfigPrio ctx")
      case True
      then show ?thesis
        using Delete old HandleDPCDelete_accepted [OF True old, of env]
        by (auto simp add: allocated_def)
    next
      case False
      then show ?thesis
        using Delete assms HandleDPCDelete_rejected [OF False, of env]
        by auto
    qed
  qed
qed

lemma run_allocated:
  assumes "allocated ctx"
  shows "\<exists>ctx' calls. run ctx es = Inr (ctx', calls) \<and> allocated ctx' \<and>
           DevicePortConfigPrio ctx' =
             lastPriority (DevicePortConfigPrio ctx) (acceptedEvents ctx es)"
  using assms
proof (induction es arbitrary: ctx)
  case Nil
  then show ?case by simp
next
  case (Cons delivery es)
  obtain env e where delivery: "delivery = (env, e)"
    by (cases delivery)
  obtain ctx1 calls1 where
    s: "step env ctx e = Inr (ctx1, calls1)" "allocated ctx1"
       "DevicePortConfigPrio ctx1 =
          (if accepted ctx e
           then (case e of Modify key portConfig \<Rightarrow> priority key | Delete key \<Rightarrow> 0)
           else DevicePortConfigPrio ctx)"
    using step_allocated [OF Cons.prems] by blast
  obtain ctx2 calls2 where
    r: "run ctx1 es = Inr (ctx2, calls2)" "allocated ctx2"
       "DevicePortConfigPrio ctx2 =
          lastPriority (DevicePortConfigPrio ctx1) (acceptedEvents ctx1 es)"
    using Cons.IH [OF s(2)] by blast
  show ?case
    using s r delivery by (cases e) simp_all
qed

lemma lastPriority_zero:
  "(lastPriority p es = 0) =
     (if es = [] then p = 0 else \<not> isModify (last es))"
proof (induction p es rule: lastPriority.induct)
  case (1 p)
  then show ?case by simp
next
  case (2 p key portConfig es)
  have "priority key \<noteq> 0" using priority_range [of key] by auto
  then show ?case using 2 by (cases es) simp_all
next
  case (3 p key es)
  then show ?case by (cases es) simp_all
qed

subsection \<open>Modify\<close>

text \<open>
  C1. From a context whose configuration and status pointers are set, after any
  sequence of Modify and Delete events the handler returns on a further Modify event.
  The precedence of the event is 3 for the key \<open>global\<close>, 2 for the key
  \<open>override\<close> and 1 for every other key. The event is accepted exactly when the
  active precedence is 0 or the precedence of the event is at most the active
  precedence. An accepted event leaves its payload as the active configuration and its
  precedence as the active precedence, also when that precedence was already the active
  one, and calls the status projector; a rejected event returns the context unchanged
  and makes no call.
\<close>

theorem HandleDPCModify_arbitration:
  assumes "allocated ctx0"
  shows "\<exists>ctx calls ctx' calls'.
           run ctx0 evs = Inr (ctx, calls) \<and>
           HandleDPCModify env ctx key portConfig = Inr (ctx', calls') \<and>
           (let p = (if key = ''global'' then 3 else if key = ''override'' then 2 else 1)
            in if DevicePortConfigPrio ctx = 0 \<or> p \<le> DevicePortConfigPrio ctx
               then DevicePortConfig ctx' = Some portConfig \<and>
                    DevicePortConfigPrio ctx' = p \<and>
                    projectorCalls calls' \<noteq> []
               else ctx' = ctx \<and> calls' = [])"
proof -
  obtain ctx calls where r: "run ctx0 evs = Inr (ctx, calls)" "allocated ctx"
    using run_allocated [OF assms] by blast
  obtain oldConfig oldStatus where
    old: "DevicePortConfig ctx = Some oldConfig" "DeviceNetworkStatus ctx = Some oldStatus"
    using r(2) by (auto simp add: allocated_def)
  have p: "(if key = ''global'' then 3 else if key = ''override'' then 2 else 1) =
      priority key"
    by (simp add: priority_def)
  show ?thesis
  proof (cases "DevicePortConfigPrio ctx = 0 \<or> priority key \<le> DevicePortConfigPrio ctx")
    case True
    show ?thesis
      unfolding p
      using r(1) True HandleDPCModify_accepted [OF True old, of env portConfig]
      by (auto simp add: Let_def projectorCalls_append)
  next
    case False
    show ?thesis
      unfolding p
      using r(1) False HandleDPCModify_rejected [OF False, of env portConfig]
      by (auto simp add: Let_def)
  qed
qed

theorem HandleDPCModify_arbitration_witness:
  "allocated demoCtx \<and>
   run demoCtx
       [(demoEnv, Modify ''global'' [''a'']), (demoEnv, Modify ''override'' [''b'']),
        (demoEnv, Modify ''zedagent'' [''c''])] =
     Inr (demoCtx\<lparr>UsableAddressCount := 1, DevicePortConfig := Some [''c''],
                  DevicePortConfigPrio := 1, DeviceNetworkStatus := Some [''c''],
                  PubDeviceNetworkStatus := Some [(''global'', [''c''])], Changed := True\<rparr>,
          [CallUpdateDhcpClient [''a''] [], CallMakeDeviceNetworkStatus [''a''] [],
           CallUpdateLedManagerConfig 2, PublishDeviceNetworkStatus ''global'' [''a''],
           CallUpdateDhcpClient [''b''] [''a''], CallMakeDeviceNetworkStatus [''b''] [''a''],
           PublishDeviceNetworkStatus ''global'' [''b''],
           CallUpdateDhcpClient [''c''] [''b''], CallMakeDeviceNetworkStatus [''c''] [''b''],
           PublishDeviceNetworkStatus ''global'' [''c'']]) \<and>
   HandleDPCModify demoEnv
       (demoCtx\<lparr>UsableAddressCount := 1, DevicePortConfig := Some [''c''],
                DevicePortConfigPrio := 1, DeviceNetworkStatus := Some [''c''],
                PubDeviceNetworkStatus := Some [(''global'', [''c''])], Changed := True\<rparr>)
       ''global'' [''d''] =
     Inr (demoCtx\<lparr>UsableAddressCount := 1, DevicePortConfig := Some [''c''],
                  DevicePortConfigPrio := 1, DeviceNetworkStatus := Some [''c''],
                  PubDeviceNetworkStatus := Some [(''global'', [''c''])], Changed := True\<rparr>,
          [])"
  using HandleDPCModify_arbitration
          [of demoCtx
              "[(demoEnv, Modify ''global'' [''a'']), (demoEnv, Modify ''override'' [''b'']),
                (demoEnv, Modify ''zedagent'' [''c''])]"
              demoEnv "''global''" "[''d'']"]
  by (simp add: allocated_def demoCtx_def demoEnv_def priority_def HandleDPCModify_def
        DoDNSUpdate_def Let_def)

text \<open>
  The claim C2 as stated fails: a Modify of precedence 1 on a context of active
  precedence 1, with the active configuration as payload, calls the status projector,
  and here the status it returns replaces the stale one and is published.
\<close>

theorem HandleDPCModify_same_config_counterexample:
  "(DevicePortConfigPrio (activeCtx 1\<lparr>DeviceNetworkStatus := Some []\<rparr>) = 0 \<or>
    priority ''zedagent'' \<le> DevicePortConfigPrio (activeCtx 1\<lparr>DeviceNetworkStatus := Some []\<rparr>)) \<and>
   DevicePortConfig (activeCtx 1\<lparr>DeviceNetworkStatus := Some []\<rparr>) = Some [''eth0''] \<and>
   HandleDPCModify demoEnv (activeCtx 1\<lparr>DeviceNetworkStatus := Some []\<rparr>) ''zedagent'' [''eth0''] =
     Inr (activeCtx 1,
          [CallMakeDeviceNetworkStatus [''eth0''] [],
           PublishDeviceNetworkStatus ''global'' [''eth0'']])"
  by (simp add: activeCtx_def demoEnv_def priority_def HandleDPCModify_def DoDNSUpdate_def
        Let_def)

text \<open>
  C2 (amended). An accepted Modify whose payload equals the active configuration makes
  no call to the DHCP client and sets the active precedence to the precedence of the key.
  The status projector is still called, once, on the payload and the previous status; when
  the status it returns equals the previous one nothing else changes, otherwise the
  status is replaced and \<open>DoDNSUpdate\<close> runs.
\<close>

theorem HandleDPCModify_same_config:
  assumes "DevicePortConfigPrio ctx = 0 \<or> priority key \<le> DevicePortConfigPrio ctx"
    and "DevicePortConfig ctx = Some portConfig"
    and "DeviceNetworkStatus ctx = Some oldStatus"
  shows "\<exists>ctx' calls.
           HandleDPCModify env ctx key portConfig = Inr (ctx', calls) \<and>
           dhcpCalls calls = [] \<and>
           projectorCalls calls = [(portConfig, oldStatus)] \<and>
           DevicePortConfigPrio ctx' = priority key \<and>
           DevicePortConfig ctx' = Some portConfig \<and>
           DeviceNetworkStatus ctx' =
             Some (fst (MakeDeviceNetworkStatus env portConfig oldStatus)) \<and>
           (if fst (MakeDeviceNetworkStatus env portConfig oldStatus) = oldStatus
            then ctx' = ctx\<lparr>DevicePortConfigPrio := priority key\<rparr> \<and>
                 calls = [CallMakeDeviceNetworkStatus portConfig oldStatus]
            else \<exists>notified.
                   DoDNSUpdate env
                     (ctx\<lparr>DevicePortConfigPrio := priority key,
                          DeviceNetworkStatus :=
                            Some (fst (MakeDeviceNetworkStatus env portConfig oldStatus))\<rparr>) =
                     Inr (ctx', notified) \<and>
                   calls = CallMakeDeviceNetworkStatus portConfig oldStatus # notified)"
proof -
  have same: "ctx\<lparr>DevicePortConfigPrio := p, DevicePortConfig := Some portConfig\<rparr> =
              ctx\<lparr>DevicePortConfigPrio := p\<rparr>" for p
    using assms(2) by (cases ctx) simp
  show ?thesis
    using HandleDPCModify_accepted [OF assms, of env portConfig] assms(2,3)
    by (cases "fst (MakeDeviceNetworkStatus env portConfig oldStatus) = oldStatus")
       (simp_all add: Let_def same dhcpCalls_append projectorCalls_append
          DoDNSUpdate_returns)
qed

theorem HandleDPCModify_same_config_witness:
  "(DevicePortConfigPrio (activeCtx 2) = 0 \<or>
    priority ''zedagent'' \<le> DevicePortConfigPrio (activeCtx 2)) \<and>
   DevicePortConfig (activeCtx 2) = Some [''eth0''] \<and>
   DeviceNetworkStatus (activeCtx 2) = Some [''eth0''] \<and>
   HandleDPCModify demoEnv (activeCtx 2) ''zedagent'' [''eth0''] =
     Inr (activeCtx 1, [CallMakeDeviceNetworkStatus [''eth0''] [''eth0'']])"
  using HandleDPCModify_same_config [of "activeCtx 2" "''zedagent''" "[''eth0'']" "[''eth0'']" demoEnv]
  by (simp add: activeCtx_def demoEnv_def priority_def)


text \<open>
  The claim C5 as stated fails: the projector returns an error and a status that differs
  from the previous one; the handler stores that status, signals and publishes.
\<close>

theorem HandleDPCModify_projection_error_counterexample:
  "(DevicePortConfigPrio (activeCtx 1) = 0 \<or>
    priority ''zedagent'' \<le> DevicePortConfigPrio (activeCtx 1)) \<and>
   MakeDeviceNetworkStatus demoEnv [''down''] [''eth0''] = ([], Some ''probe failed'') \<and>
   DeviceNetworkStatus (activeCtx 1) = Some [''eth0''] \<and>
   HandleDPCModify demoEnv (activeCtx 1) ''zedagent'' [''down''] =
     Inr (activeCtx 1\<lparr>UsableAddressCount := 0, DevicePortConfig := Some [''down''],
                       DeviceNetworkStatus := Some [],
                       PubDeviceNetworkStatus := Some [(''global'', [])]\<rparr>,
          [CallUpdateDhcpClient [''down''] [''eth0''],
           CallMakeDeviceNetworkStatus [''down''] [''eth0''],
           CallUpdateLedManagerConfig 1,
           PublishDeviceNetworkStatus ''global'' []])"
  by (simp add: activeCtx_def demoEnv_def priority_def HandleDPCModify_def DoDNSUpdate_def
        Let_def)

text \<open>
  C5 (amended). An accepted Modify calls the status projector once and never looks at
  the error it returns: the returned status becomes the active status whatever the
  error. When the returned status equals the previous one there is no signal and no
  publication and only the precedence and the configuration are written; when it
  differs, \<open>DoDNSUpdate\<close> runs on the context with the status replaced, and the
  signals and publications of the call are those of that run.
\<close>

theorem HandleDPCModify_projection_error_ignored:
  assumes "DevicePortConfigPrio ctx = 0 \<or> priority key \<le> DevicePortConfigPrio ctx"
    and "DevicePortConfig ctx = Some oldConfig"
    and "DeviceNetworkStatus ctx = Some oldStatus"
    and "MakeDeviceNetworkStatus env portConfig oldStatus = (dnStatus, err)"
  shows "\<exists>ctx' calls.
           HandleDPCModify env ctx key portConfig = Inr (ctx', calls) \<and>
           projectorCalls calls = [(portConfig, oldStatus)] \<and>
           DeviceNetworkStatus ctx' = Some dnStatus \<and>
           (if dnStatus = oldStatus
            then ledSignals calls = [] \<and> statusPublications calls = [] \<and>
                 ctx' = ctx\<lparr>DevicePortConfigPrio := priority key,
                            DevicePortConfig := Some portConfig\<rparr>
            else \<exists>notified.
                   DoDNSUpdate env
                     (ctx\<lparr>DevicePortConfigPrio := priority key,
                          DevicePortConfig := Some portConfig,
                          DeviceNetworkStatus := Some dnStatus\<rparr>) = Inr (ctx', notified) \<and>
                   ledSignals calls = ledSignals notified \<and>
                   statusPublications calls = statusPublications notified)"
proof -
  have dn: "fst (MakeDeviceNetworkStatus env portConfig oldStatus) = dnStatus"
    using assms(4) by simp
  show ?thesis
  proof (cases "dnStatus = oldStatus")
    case True
    then show ?thesis
      using HandleDPCModify_accepted [OF assms(1-3), of env portConfig] assms(3) dn
      by (simp add: Let_def projectorCalls_append ledSignals_append
            statusPublications_append)
  next
    case False
    then show ?thesis
      using HandleDPCModify_accepted [OF assms(1-3), of env portConfig] dn
      by (simp add: Let_def projectorCalls_append ledSignals_append
            statusPublications_append DoDNSUpdate_returns)
  qed
qed

theorem HandleDPCModify_projection_error_ignored_witness:
  "(DevicePortConfigPrio (activeCtx 1) = 0 \<or>
    priority ''zedagent'' \<le> DevicePortConfigPrio (activeCtx 1)) \<and>
   DevicePortConfig (activeCtx 1) = Some [''eth0''] \<and>
   DeviceNetworkStatus (activeCtx 1) = Some [''eth0''] \<and>
   MakeDeviceNetworkStatus demoEnv [''eth0'', ''down''] [''eth0''] =
     ([''eth0''], Some ''probe failed'') \<and>
   HandleDPCModify demoEnv (activeCtx 1) ''zedagent'' [''eth0'', ''down''] =
     Inr (activeCtx 1\<lparr>DevicePortConfig := Some [''eth0'', ''down'']\<rparr>,
          [CallUpdateDhcpClient [''eth0'', ''down''] [''eth0''],
           CallMakeDeviceNetworkStatus [''eth0'', ''down''] [''eth0'']])"
  using HandleDPCModify_projection_error_ignored
          [of "activeCtx 1" "''zedagent''" "[''eth0'']" "[''eth0'']" demoEnv
              "[''eth0'', ''down'']" "[''eth0'']" "Some ''probe failed''"]
  by (simp add: activeCtx_def demoEnv_def priority_def HandleDPCModify_def Let_def)


subsection \<open>Availability notification\<close>

text \<open>
  C6. \<open>DoDNSUpdate\<close>, on a context whose status pointer is set, signals 1 exactly
  when the fresh count is zero and the cached count is not, signals 2 exactly when the
  fresh count is not zero and the cached count is, signals nothing else and at most
  once, and stores the fresh count as the cached count in every case.
\<close>

theorem DoDNSUpdate_signals:
  assumes "DeviceNetworkStatus ctx = Some status"
  shows "\<exists>ctx' calls. DoDNSUpdate env ctx = Inr (ctx', calls) \<and>
           ledSignals calls =
             (if CountLocalAddrAnyNoLinkLocal env status = 0 \<and> UsableAddressCount ctx \<noteq> 0
              then [1]
              else if CountLocalAddrAnyNoLinkLocal env status \<noteq> 0 \<and> UsableAddressCount ctx = 0
              then [2]
              else []) \<and>
           (1 \<in> set (ledSignals calls)) =
             (CountLocalAddrAnyNoLinkLocal env status = 0 \<and> UsableAddressCount ctx \<noteq> 0) \<and>
           (2 \<in> set (ledSignals calls)) =
             (CountLocalAddrAnyNoLinkLocal env status \<noteq> 0 \<and> UsableAddressCount ctx = 0) \<and>
           UsableAddressCount ctx' = CountLocalAddrAnyNoLinkLocal env status"
  using assms
  by (cases "PubDeviceNetworkStatus ctx")
     (auto simp add: DoDNSUpdate_def Let_def ledSignals_append)

theorem DoDNSUpdate_signals_witness:
  "DeviceNetworkStatus (activeCtx 1\<lparr>DeviceNetworkStatus := Some []\<rparr>) = Some [] \<and>
   DoDNSUpdate demoEnv (activeCtx 1\<lparr>DeviceNetworkStatus := Some []\<rparr>) =
     Inr (activeCtx 1\<lparr>DeviceNetworkStatus := Some [], UsableAddressCount := 0,
                       PubDeviceNetworkStatus := Some [(''global'', [])]\<rparr>,
          [CallUpdateLedManagerConfig 1, PublishDeviceNetworkStatus ''global'' []])"
  using DoDNSUpdate_signals [of "activeCtx 1\<lparr>DeviceNetworkStatus := Some []\<rparr>" "[]" demoEnv]
  by (simp add: activeCtx_def demoEnv_def DoDNSUpdate_def)

text \<open>
  The claim C8 as stated fails: with a nil status publication \<open>DoDNSUpdate\<close>
  signals the loss of the last address and publishes nothing.
\<close>

theorem DoDNSUpdate_publication_counterexample:
  "DeviceNetworkStatus (activeCtx 1\<lparr>DeviceNetworkStatus := Some [],
                                     PubDeviceNetworkStatus := None\<rparr>) = Some [] \<and>
   DoDNSUpdate demoEnv (activeCtx 1\<lparr>DeviceNetworkStatus := Some [],
                                     PubDeviceNetworkStatus := None\<rparr>) =
     Inr (activeCtx 1\<lparr>UsableAddressCount := 0, DeviceNetworkStatus := Some [],
                       PubDeviceNetworkStatus := None\<rparr>,
          [CallUpdateLedManagerConfig 1])"
  by (simp add: activeCtx_def demoEnv_def DoDNSUpdate_def Let_def)

text \<open>
  C8 (amended). \<open>DoDNSUpdate\<close> publishes the active status under the key
  \<open>global\<close> exactly once when the status publication is not nil, whatever the fresh
  and the cached counts are, and publishes nothing when it is nil. A Modify or a Delete
  publishes exactly when it is accepted, the status it computes differs from the
  previous one and the status publication is not nil.
\<close>

theorem DoDNSUpdate_publication:
  assumes "DevicePortConfig ctx = Some oldConfig"
    and "DeviceNetworkStatus ctx = Some status"
  shows "(\<exists>ctx' calls.
            DoDNSUpdate env ctx = Inr (ctx', calls) \<and>
            statusPublications calls =
              (case PubDeviceNetworkStatus ctx of
                 None \<Rightarrow> []
               | Some items \<Rightarrow> [(''global'', status)]) \<and>
            PubDeviceNetworkStatus ctx' =
              map_option (AList.update ''global'' status) (PubDeviceNetworkStatus ctx)) \<and>
         (\<exists>ctx' calls.
            HandleDPCModify env ctx key portConfig = Inr (ctx', calls) \<and>
            statusPublications calls =
              (if accepted ctx (Modify key portConfig) \<and>
                  fst (MakeDeviceNetworkStatus env portConfig status) \<noteq> status \<and>
                  PubDeviceNetworkStatus ctx \<noteq> None
               then [(''global'', fst (MakeDeviceNetworkStatus env portConfig status))]
               else [])) \<and>
         (\<exists>ctx' calls.
            HandleDPCDelete env ctx key = Inr (ctx', calls) \<and>
            statusPublications calls =
              (if accepted ctx (Delete key) \<and>
                  zeroDeviceNetworkStatus env \<noteq> status \<and>
                  PubDeviceNetworkStatus ctx \<noteq> None
               then [(''global'', zeroDeviceNetworkStatus env)]
               else []))"
proof -
  have notification: "\<exists>ctx' calls.
      DoDNSUpdate env ctx = Inr (ctx', calls) \<and>
      statusPublications calls =
        (case PubDeviceNetworkStatus ctx of
           None \<Rightarrow> []
         | Some items \<Rightarrow> [(''global'', status)]) \<and>
      PubDeviceNetworkStatus ctx' =
        map_option (AList.update ''global'' status) (PubDeviceNetworkStatus ctx)"
    by (simp add: DoDNSUpdate_returns [OF assms(2)])
  have modify: "\<exists>ctx' calls.
      HandleDPCModify env ctx key portConfig = Inr (ctx', calls) \<and>
      statusPublications calls =
        (if accepted ctx (Modify key portConfig) \<and>
            fst (MakeDeviceNetworkStatus env portConfig status) \<noteq> status \<and>
            PubDeviceNetworkStatus ctx \<noteq> None
         then [(''global'', fst (MakeDeviceNetworkStatus env portConfig status))]
         else [])"
  proof (cases "DevicePortConfigPrio ctx = 0 \<or> priority key \<le> DevicePortConfigPrio ctx")
    case True
    then have "accepted ctx (Modify key portConfig)" by auto
    then show ?thesis
      using HandleDPCModify_accepted [OF True assms, of env portConfig]
      by (auto simp add: Let_def statusPublications_append split: option.splits)
  next
    case False
    then have "\<not> accepted ctx (Modify key portConfig)" by auto
    then show ?thesis
      using HandleDPCModify_rejected [OF False, of env portConfig] by simp
  qed
  have delete: "\<exists>ctx' calls.
      HandleDPCDelete env ctx key = Inr (ctx', calls) \<and>
      statusPublications calls =
        (if accepted ctx (Delete key) \<and>
            zeroDeviceNetworkStatus env \<noteq> status \<and>
            PubDeviceNetworkStatus ctx \<noteq> None
         then [(''global'', zeroDeviceNetworkStatus env)]
         else [])"
  proof (cases "priority key = DevicePortConfigPrio ctx")
    case True
    then have "accepted ctx (Delete key)" by simp
    then show ?thesis
      using HandleDPCDelete_accepted [OF True assms, of env]
      by (auto simp add: statusPublications_append split: option.splits)
  next
    case False
    then have "\<not> accepted ctx (Delete key)" by auto
    then show ?thesis
      using HandleDPCDelete_rejected [OF False, of env] by simp
  qed
  show ?thesis
    using notification modify delete by blast
qed

theorem DoDNSUpdate_publication_witness:
  "DevicePortConfig (activeCtx 3) = Some [''eth0''] \<and>
   DeviceNetworkStatus (activeCtx 3) = Some [''eth0''] \<and>
   DoDNSUpdate demoEnv (activeCtx 3) =
     Inr (activeCtx 3, [PublishDeviceNetworkStatus ''global'' [''eth0'']]) \<and>
   HandleDPCModify demoEnv (activeCtx 3) ''override'' [''eth1''] =
     Inr (activeCtx 2\<lparr>DevicePortConfig := Some [''eth1''],
                       DeviceNetworkStatus := Some [''eth1''],
                       PubDeviceNetworkStatus := Some [(''global'', [''eth1''])]\<rparr>,
          [CallUpdateDhcpClient [''eth1''] [''eth0''],
           CallMakeDeviceNetworkStatus [''eth1''] [''eth0''],
           PublishDeviceNetworkStatus ''global'' [''eth1'']]) \<and>
   HandleDPCDelete demoEnv (activeCtx 3) ''override'' = Inr (activeCtx 3, [])"
  using DoDNSUpdate_publication
          [of "activeCtx 3" "[''eth0'']" "[''eth0'']" demoEnv "''override''" "[''eth1'']"]
  by (simp add: activeCtx_def demoEnv_def priority_def HandleDPCModify_def
        HandleDPCDelete_def DoDNSUpdate_def Let_def)


subsection \<open>Delete\<close>

text \<open>
  C7. A Delete whose precedence differs from the active precedence returns the context
  unchanged, every field of it, and makes no collaborator call, no signal and no
  publication.
\<close>

theorem HandleDPCDelete_rejected_frame:
  assumes "priority key \<noteq> DevicePortConfigPrio ctx"
  shows "HandleDPCDelete env ctx key = Inr (ctx, [])"
  using assms by (simp add: HandleDPCDelete_def Let_def)

theorem HandleDPCDelete_rejected_frame_witness:
  "priority ''global'' \<noteq> DevicePortConfigPrio (activeCtx 1) \<and>
   HandleDPCDelete demoEnv (activeCtx 1) ''global'' = Inr (activeCtx 1, [])"
  using HandleDPCDelete_rejected_frame [of "''global''" "activeCtx 1" demoEnv]
  by (simp add: priority_def activeCtx_def)

text \<open>
  C10. An owning Delete on a context whose configuration and status are already the
  zero values changes the active precedence to 0 and nothing else: no call to the DHCP
  client, no signal, no publication, and the other fields, the dirty flag and the cached
  count among them, keep their values.
\<close>

theorem HandleDPCDelete_owning_already_empty:
  assumes "priority key = DevicePortConfigPrio ctx"
    and "DevicePortConfig ctx = Some (zeroDevicePortConfig env)"
    and "DeviceNetworkStatus ctx = Some (zeroDeviceNetworkStatus env)"
  shows "HandleDPCDelete env ctx key = Inr (ctx\<lparr>DevicePortConfigPrio := 0\<rparr>, [])"
  using assms by (simp add: HandleDPCDelete_def Let_def)

theorem HandleDPCDelete_owning_already_empty_witness:
  "priority ''override'' = DevicePortConfigPrio (demoCtx\<lparr>DevicePortConfigPrio := 2\<rparr>) \<and>
   DevicePortConfig (demoCtx\<lparr>DevicePortConfigPrio := 2\<rparr>) = Some (zeroDevicePortConfig demoEnv) \<and>
   DeviceNetworkStatus (demoCtx\<lparr>DevicePortConfigPrio := 2\<rparr>) =
     Some (zeroDeviceNetworkStatus demoEnv) \<and>
   HandleDPCDelete demoEnv (demoCtx\<lparr>DevicePortConfigPrio := 2\<rparr>) ''override'' =
     Inr (demoCtx, [])"
  using HandleDPCDelete_owning_already_empty
          [of "''override''" "demoCtx\<lparr>DevicePortConfigPrio := 2\<rparr>" demoEnv]
  by (simp add: priority_def demoCtx_def demoEnv_def)

text \<open>
  The claim C3 as stated fails: the owning Delete does not call the status projector.
  Here the projector, called on the zero configuration and the previous status, would
  return the previous status, so that nothing would be replaced; the handler stores
  the zero status, signals and publishes.
\<close>

theorem HandleDPCDelete_projection_counterexample:
  "priority ''zedagent'' = DevicePortConfigPrio (activeCtx 1) \<and>
   DeviceNetworkStatus (activeCtx 1) = Some [''eth0''] \<and>
   MakeDeviceNetworkStatus demoEnv (zeroDevicePortConfig demoEnv) [''eth0''] =
     ([''eth0''], Some ''no ports'') \<and>
   HandleDPCDelete demoEnv (activeCtx 1) ''zedagent'' =
     Inr (demoCtx\<lparr>PubDeviceNetworkStatus := Some [(''global'', [])], Changed := True\<rparr>,
          [CallUpdateDhcpClient [] [''eth0''],
           CallUpdateLedManagerConfig 1,
           PublishDeviceNetworkStatus ''global'' []])"
  by (simp add: activeCtx_def demoCtx_def demoEnv_def priority_def HandleDPCDelete_def
        DoDNSUpdate_def Let_def)

text \<open>
  C3 (amended). An accepted Delete sets the active precedence to 0 and takes the zero
  configuration as the candidate: the DHCP client is called on it and the previous
  configuration exactly when they differ, and it becomes the active configuration. The
  status projector is not called: the new status is the zero status. When the previous
  status equals it there is no signal and no publication; when it differs the status is
  replaced and \<open>DoDNSUpdate\<close> runs.
\<close>

theorem HandleDPCDelete_accepted_steps:
  assumes "priority key = DevicePortConfigPrio ctx"
    and "DevicePortConfig ctx = Some oldConfig"
    and "DeviceNetworkStatus ctx = Some oldStatus"
  shows "\<exists>ctx' calls.
           HandleDPCDelete env ctx key = Inr (ctx', calls) \<and>
           DevicePortConfigPrio ctx' = 0 \<and>
           DevicePortConfig ctx' = Some (zeroDevicePortConfig env) \<and>
           dhcpCalls calls =
             (if oldConfig \<noteq> zeroDevicePortConfig env
              then [(zeroDevicePortConfig env, oldConfig)] else []) \<and>
           projectorCalls calls = [] \<and>
           DeviceNetworkStatus ctx' = Some (zeroDeviceNetworkStatus env) \<and>
           (if oldStatus = zeroDeviceNetworkStatus env
            then ledSignals calls = [] \<and> statusPublications calls = [] \<and>
                 ctx' = ctx\<lparr>DevicePortConfigPrio := 0,
                            DevicePortConfig := Some (zeroDevicePortConfig env)\<rparr>
            else \<exists>notified.
                   DoDNSUpdate env
                     (ctx\<lparr>DevicePortConfigPrio := 0,
                          DevicePortConfig := Some (zeroDevicePortConfig env),
                          DeviceNetworkStatus := Some (zeroDeviceNetworkStatus env)\<rparr>) =
                     Inr (ctx', notified) \<and>
                   ledSignals calls = ledSignals notified \<and>
                   statusPublications calls = statusPublications notified)"
proof (cases "oldStatus = zeroDeviceNetworkStatus env")
  case True
  then show ?thesis
    using HandleDPCDelete_accepted [OF assms, of env] assms(3)
    by (simp add: dhcpCalls_append projectorCalls_append ledSignals_append
          statusPublications_append)
next
  case False
  then show ?thesis
    using HandleDPCDelete_accepted [OF assms, of env]
    by (simp add: dhcpCalls_append projectorCalls_append ledSignals_append
          statusPublications_append DoDNSUpdate_returns)
qed

theorem HandleDPCDelete_accepted_steps_witness:
  "priority ''global'' = DevicePortConfigPrio (activeCtx 3) \<and>
   DevicePortConfig (activeCtx 3) = Some [''eth0''] \<and>
   DeviceNetworkStatus (activeCtx 3) = Some [''eth0''] \<and>
   HandleDPCDelete demoEnv (activeCtx 3) ''global'' =
     Inr (demoCtx\<lparr>PubDeviceNetworkStatus := Some [(''global'', [])], Changed := True\<rparr>,
          [CallUpdateDhcpClient [] [''eth0''],
           CallUpdateLedManagerConfig 1,
           PublishDeviceNetworkStatus ''global'' []])"
  using HandleDPCDelete_accepted_steps [of "''global''" "activeCtx 3" "[''eth0'']" "[''eth0'']" demoEnv]
  by (simp add: activeCtx_def demoCtx_def demoEnv_def priority_def HandleDPCDelete_def
        DoDNSUpdate_def Let_def)

subsection \<open>Event sequences\<close>

text \<open>
  The claim C4 as stated fails: after an accepted Modify and the owning Delete the
  active precedence is 0 again, although a Modify has been accepted.
\<close>

theorem precedence_zero_counterexample:
  "DevicePortConfigPrio demoCtx = 0 \<and>
   acceptedEvents demoCtx
       [(demoEnv, Modify ''zedagent'' [''eth0'']), (demoEnv, Delete ''zedagent'')] =
     [Modify ''zedagent'' [''eth0''], Delete ''zedagent''] \<and>
   run demoCtx [(demoEnv, Modify ''zedagent'' [''eth0'']), (demoEnv, Delete ''zedagent'')] =
     Inr (demoCtx\<lparr>PubDeviceNetworkStatus := Some [(''global'', [])], Changed := True\<rparr>,
          [CallUpdateDhcpClient [''eth0''] [],
           CallMakeDeviceNetworkStatus [''eth0''] [],
           CallUpdateLedManagerConfig 2,
           PublishDeviceNetworkStatus ''global'' [''eth0''],
           CallUpdateDhcpClient [] [''eth0''],
           CallUpdateLedManagerConfig 1,
           PublishDeviceNetworkStatus ''global'' []]) \<and>
   DevicePortConfigPrio
     (demoCtx\<lparr>PubDeviceNetworkStatus := Some [(''global'', [])], Changed := True\<rparr>) = 0"
  by (simp add: demoCtx_def demoEnv_def priority_def HandleDPCModify_def HandleDPCDelete_def
        DoDNSUpdate_def Let_def)

text \<open>
  C4 (amended). From a context with precedence 0 whose configuration and status pointers
  are set, after any sequence of Modify and Delete events the active precedence is 0
  exactly when the most recent accepted event, if there is one, is not a Modify: no
  Modify has been accepted since the last accepted Delete. In particular it is 0 when no
  Modify has ever been accepted.
\<close>

theorem precedence_zero_invariant:
  assumes "allocated ctx0"
    and "DevicePortConfigPrio ctx0 = 0"
  shows "\<exists>ctx calls.
           run ctx0 evs = Inr (ctx, calls) \<and>
           (DevicePortConfigPrio ctx = 0) =
             (acceptedEvents ctx0 evs = [] \<or>
              \<not> isModify (last (acceptedEvents ctx0 evs))) \<and>
           (filter isModify (acceptedEvents ctx0 evs) = [] \<longrightarrow>
              DevicePortConfigPrio ctx = 0)"
proof -
  obtain ctx calls where
    r: "run ctx0 evs = Inr (ctx, calls)"
       "DevicePortConfigPrio ctx =
          lastPriority (DevicePortConfigPrio ctx0) (acceptedEvents ctx0 evs)"
    using run_allocated [OF assms(1)] by blast
  have zero: "(DevicePortConfigPrio ctx = 0) =
      (acceptedEvents ctx0 evs = [] \<or> \<not> isModify (last (acceptedEvents ctx0 evs)))"
    using r(2) assms(2) lastPriority_zero [of 0 "acceptedEvents ctx0 evs"] by auto
  have never: "filter isModify (acceptedEvents ctx0 evs) = [] \<Longrightarrow>
      acceptedEvents ctx0 evs = [] \<or> \<not> isModify (last (acceptedEvents ctx0 evs))"
    by (auto simp add: filter_empty_conv)
  show ?thesis
    using r(1) zero never by auto
qed

theorem precedence_zero_invariant_witness:
  "allocated demoCtx \<and> DevicePortConfigPrio demoCtx = 0 \<and>
   acceptedEvents demoCtx
       [(demoEnv, Delete ''global''), (demoEnv, Modify ''override'' [''eth0''])] =
     [Modify ''override'' [''eth0'']] \<and>
   run demoCtx [(demoEnv, Delete ''global''), (demoEnv, Modify ''override'' [''eth0''])] =
     Inr (activeCtx 2,
          [CallUpdateDhcpClient [''eth0''] [],
           CallMakeDeviceNetworkStatus [''eth0''] [],
           CallUpdateLedManagerConfig 2,
           PublishDeviceNetworkStatus ''global'' [''eth0'']])"
  using precedence_zero_invariant
          [of demoCtx "[(demoEnv, Delete ''global''), (demoEnv, Modify ''override'' [''eth0''])]"]
  by (simp add: allocated_def activeCtx_def demoCtx_def demoEnv_def priority_def
        HandleDPCModify_def HandleDPCDelete_def DoDNSUpdate_def Let_def)

subsection \<open>Legacy single-source path\<close>

text \<open>
  C9. \<open>HandleDNCModify\<close> with the registered key stores the incoming payload as the
  raw configuration in every case. When the port configuration built from it equals the
  one published under \<open>global\<close> nothing else changes and nothing is published;
  otherwise the built configuration is published.
\<close>

theorem HandleDNCModify_overwrites_raw_config:
  assumes "key = ManufacturerModel ctx"
    and "PubDevicePortConfig ctx = Some items"
    and "DeviceNetworkConfig ctx = Some oldRaw"
  shows "\<exists>ctx' calls.
           HandleDNCModify env ctx key config = Inr (ctx', calls) \<and>
           DeviceNetworkConfig ctx' = Some config \<and>
           (if publishedPortConfig env items = MakeDevicePortConfig env config
            then ctx' = ctx\<lparr>DeviceNetworkConfig := Some config\<rparr> \<and> calls = []
            else ctx' = ctx\<lparr>DeviceNetworkConfig := Some config,
                            PubDevicePortConfig :=
                              Some (AList.update ''global''
                                      (MakeDevicePortConfig env config) items)\<rparr> \<and>
                 calls = [PublishDevicePortConfig ''global'' (MakeDevicePortConfig env config)])"
  using assms by (simp add: HandleDNCModify_def Let_def)

theorem HandleDNCModify_overwrites_raw_config_witness:
  "''acme.box'' = ManufacturerModel (demoCtx\<lparr>PubDevicePortConfig := Some [(''global'', [''eth0''])]\<rparr>) \<and>
   PubDevicePortConfig (demoCtx\<lparr>PubDevicePortConfig := Some [(''global'', [''eth0''])]\<rparr>) =
     Some [(''global'', [''eth0''])] \<and>
   DeviceNetworkConfig (demoCtx\<lparr>PubDevicePortConfig := Some [(''global'', [''eth0''])]\<rparr>) =
     Some [] \<and>
   HandleDNCModify demoEnv (demoCtx\<lparr>PubDevicePortConfig := Some [(''global'', [''eth0''])]\<rparr>)
       ''acme.box'' [''eth0''] =
     Inr (demoCtx\<lparr>PubDevicePortConfig := Some [(''global'', [''eth0''])],
                  DeviceNetworkConfig := Some [''eth0'']\<rparr>, [])"
  using HandleDNCModify_overwrites_raw_config
          [of "''acme.box''" "demoCtx\<lparr>PubDevicePortConfig := Some [(''global'', [''eth0''])]\<rparr>"
              "[(''global'', [''eth0''])]" "[]" demoEnv "[''eth0'']"]
  by (simp add: demoCtx_def demoEnv_def publishedPortConfig_def)

end
